theory Spec2Isabelle
  imports Main
begin

section \<open>Data model of pkg/descheduler\<close>

text \<open>
  The Go struct \<^verbatim>\<open>Event\<close> (descheduler.go, lines 28-33): four string fields.
  The zero value of the struct has every field empty.
\<close>

record Event =
  key :: string
  eventType :: string
  namespace :: string
  resourceType :: string

definition zero_Event :: Event where
  "zero_Event = \<lparr>key = [], eventType = [], namespace = [], resourceType = []\<rparr>"

text \<open>A Go \<^verbatim>\<open>error\<close> value; \<^verbatim>\<open>nil\<close> is \<open>None\<close> of \<open>go_error option\<close>.\<close>

datatype go_error = GoError string

text \<open>\<^verbatim>\<open>const maxRetries = 5\<close> (line 26). No function of the package reads it.\<close>

definition maxRetries :: nat where
  "maxRetries = 5"

section \<open>The work queue\<close>

text \<open>
  The queue is \<^verbatim>\<open>workqueue.RateLimitingInterface\<close> of client-go; its code is not part
  of the repository. Its operations are modelled from section 4.2 of the specification.
  \<open>items\<close> are the pending entries in FIFO order, \<open>inflight\<close> the entries handed out
  by \<open>Get\<close> and not yet acknowledged, \<open>requeues\<close> the retry counter of each identity.
  Back-off delays are time and are left out: a rate-limited insertion is an insertion.
\<close>

record 'a workqueue =
  items :: "'a list"
  inflight :: "'a list"
  requeues :: "'a \<Rightarrow> nat"
  shuttingDown :: bool

text \<open>Modelled from the spec: \<^verbatim>\<open>workqueue.NewRateLimitingQueue\<close>, a fresh empty queue.\<close>

definition NewRateLimitingQueue :: "'a workqueue" where
  "NewRateLimitingQueue =
     \<lparr>items = [], inflight = [], requeues = (\<lambda>_. 0), shuttingDown = False\<rparr>"

text \<open>
  Modelled from the spec: \<^verbatim>\<open>Add(item)\<close> inserts the item; when an equal item is already
  pending the insertion is a no-op; a queue that was shut down accepts no new work.
\<close>

definition Add :: "'a workqueue \<Rightarrow> 'a \<Rightarrow> 'a workqueue" where
  "Add q x =
     (if shuttingDown q then q
      else if x \<in> set (items q) then q
      else q\<lparr>items := items q @ [x]\<rparr>)"

text \<open>
  Modelled from the spec: \<^verbatim>\<open>Get() -> (item, shutdown)\<close> blocks until an item is
  available or the queue is shut down, and returns \<^verbatim>\<open>shutdown=true\<close> with no item once
  the queue is shut down and drained. A call that blocks with no producer left to wake
  it never returns: that is the value \<open>None\<close>.
\<close>

datatype 'a got = Got 'a | ShutDownSignal

definition Get :: "'a workqueue \<Rightarrow> ('a got \<times> 'a workqueue) option" where
  "Get q =
     (case items q of
        [] \<Rightarrow> (if shuttingDown q then Some (ShutDownSignal, q) else None)
      | x # xs \<Rightarrow> Some (Got x, q\<lparr>items := xs, inflight := x # inflight q\<rparr>))"

text \<open>Modelled from the spec: \<^verbatim>\<open>Done(item)\<close> marks the item finished.\<close>

definition Done :: "'a workqueue \<Rightarrow> 'a \<Rightarrow> 'a workqueue" where
  "Done q x = q\<lparr>inflight := removeAll x (inflight q)\<rparr>"

text \<open>
  Modelled from the spec: \<^verbatim>\<open>AddRateLimited(item)\<close> re-queues the item and increments
  its retry counter; \<^verbatim>\<open>Forget(item)\<close> resets the counter; \<^verbatim>\<open>NumRequeues(item)\<close>
  reads it.
\<close>

definition AddRateLimited :: "'a workqueue \<Rightarrow> 'a \<Rightarrow> 'a workqueue" where
  "AddRateLimited q x = (Add q x)\<lparr>requeues := (requeues q)(x := Suc (requeues q x))\<rparr>"

definition Forget :: "'a workqueue \<Rightarrow> 'a \<Rightarrow> 'a workqueue" where
  "Forget q x = q\<lparr>requeues := (requeues q)(x := 0)\<rparr>"

definition NumRequeues :: "'a workqueue \<Rightarrow> 'a \<Rightarrow> nat" where
  "NumRequeues q x = requeues q x"

text \<open>
  Modelled from the spec: \<^verbatim>\<open>ShutDown()\<close> stops accepting new work; pending
  \<^verbatim>\<open>Get\<close> calls drain the queue and then return shutdown.
\<close>

definition ShutDown :: "'a workqueue \<Rightarrow> 'a workqueue" where
  "ShutDown q = q\<lparr>shuttingDown := True\<rparr>"

section \<open>Calls observed at the package boundary\<close>

text \<open>
  Every function of the model returns, next to its result and the new state, the calls
  it made to its collaborators, in program order. The three resource watchers are the
  node, replica-set and pod informers built by \<^verbatim>\<open>CreateDescheduler\<close>.
\<close>

datatype watcher = NodeW | RsW | PodW

datatype action =
    Call_Add Event
  | Call_Get
  | Call_Done Event
  | Call_ShutDown
  | Call_IsTriggered
  | Call_GetReadyNodes
  | Call_Println string
  | Call_PrintNodes "string list"
  | Call_PrintError go_error
  | Call_HandleError string
  | Call_InformerRun watcher
  | Call_WaitForCacheSync watcher
  | Call_close watcher
  | Call_RunTimer
  | Call_WaitUntil

section \<open>CreateDescheduler: the shared variables and the three callbacks\<close>

text \<open>
  The closures registered by \<^verbatim>\<open>CreateDescheduler\<close> capture three variables of the
  enclosing function: \<^verbatim>\<open>newEvent\<close> (declared once, line 56), \<^verbatim>\<open>err\<close> (line 48) and
  \<^verbatim>\<open>queue\<close> (line 54). They are the state the callbacks read and write.
\<close>

record dstate =
  newEvent :: Event
  err :: "go_error option"
  queue :: "Event workqueue"

text \<open>
  \<^verbatim>\<open>queue.Add(newEvent)\<close>: the struct is passed by value, so the queue receives a copy
  of the current contents of the shared variable.
\<close>

definition queue_Add :: "dstate \<Rightarrow> dstate \<times> action list" where
  "queue_Add s = (s\<lparr>queue := Add (queue s) (newEvent s)\<rparr>, [Call_Add (newEvent s)])"

text \<open>The callback handed to \<^verbatim>\<open>timer.InitTimer\<close> (lines 110-114).\<close>

definition timerCallback :: "dstate \<Rightarrow> dstate \<times> action list" where
  "timerCallback s =
     (let s1 = s\<lparr>newEvent := (newEvent s)\<lparr>eventType := ''onTime''\<rparr>\<rparr>;
          s2 = s1\<lparr>newEvent := (newEvent s1)\<lparr>resourceType := ''timer''\<rparr>\<rparr>
      in queue_Add s2)"

text \<open>
  The node informer's \<^verbatim>\<open>UpdateFunc\<close> (lines 121-132). \<open>IsReady\<close> is
  \<^verbatim>\<open>node.IsReady\<close> and \<open>KeyFunc\<close> is \<^verbatim>\<open>cache.MetaNamespaceKeyFunc\<close>; both live
  outside the package and are parameters. \<open>KeyFunc\<close> takes any object (a node is
  \<open>Inl\<close>, a replica set \<open>Inr\<close>) and returns Go's pair of a key and an error.
\<close>

definition nodeUpdateFunc ::
  "('n \<Rightarrow> bool) \<Rightarrow> ('n + 'r \<Rightarrow> string \<times> go_error option) \<Rightarrow> 'n \<Rightarrow> 'n \<Rightarrow> dstate
     \<Rightarrow> dstate \<times> action list" where
  "nodeUpdateFunc IsReady KeyFunc old new s =
     (if \<not> IsReady old \<and> IsReady new then
        (let (k, e) = KeyFunc (Inl old);
             s1 = s\<lparr>newEvent := (newEvent s)\<lparr>key := k\<rparr>, err := e\<rparr>;
             s2 = s1\<lparr>newEvent := (newEvent s1)\<lparr>eventType := ''getReady''\<rparr>\<rparr>;
             s3 = s2\<lparr>newEvent := (newEvent s2)\<lparr>resourceType := ''node''\<rparr>\<rparr>
         in if err s3 = None then queue_Add s3 else (s3, []))
      else (s, []))"

text \<open>The replica-set informer's \<^verbatim>\<open>UpdateFunc\<close> (lines 137-146).\<close>

definition rsUpdateFunc ::
  "('n + 'r \<Rightarrow> string \<times> go_error option) \<Rightarrow> 'r \<Rightarrow> 'r \<Rightarrow> dstate \<Rightarrow> dstate \<times> action list" where
  "rsUpdateFunc KeyFunc old new s =
     (let (k, e) = KeyFunc (Inr old);
          s1 = s\<lparr>newEvent := (newEvent s)\<lparr>key := k\<rparr>, err := e\<rparr>;
          s2 = s1\<lparr>newEvent := (newEvent s1)\<lparr>eventType := ''rsUpdate''\<rparr>\<rparr>;
          s3 = s2\<lparr>newEvent := (newEvent s2)\<lparr>resourceType := ''replicaSet''\<rparr>\<rparr>
      in if err s3 = None then queue_Add s3 else (s3, []))"

text \<open>
  \<^verbatim>\<open>CreateDescheduler\<close> (lines 43-150). Creating the client and initialising the timer
  may fail; their outcomes are parameters. On success the closure variables hold a fresh
  queue, the zero \<^verbatim>\<open>Event\<close> and a nil \<^verbatim>\<open>err\<close>.
\<close>

definition CreateDescheduler :: "go_error option \<Rightarrow> go_error option \<Rightarrow> go_error + dstate" where
  "CreateDescheduler clientErr timerErr =
     (case clientErr of
        Some e \<Rightarrow> Inl e
      | None \<Rightarrow>
          (case timerErr of
             Some e \<Rightarrow> Inl e
           | None \<Rightarrow> Inr \<lparr>newEvent = zero_Event, err = None, queue = NewRateLimitingQueue\<rparr>))"

text \<open>The state a successful \<^verbatim>\<open>CreateDescheduler\<close> leaves to the callbacks and to \<^verbatim>\<open>Run\<close>.\<close>

definition created :: dstate where
  "created = \<lparr>newEvent = zero_Event, err = None, queue = NewRateLimitingQueue\<rparr>"

text \<open>
  What the watchers and the timer deliver. Only the timer, the node informer and the
  replica-set informer have a handler, and the two informers' handlers set
  \<^verbatim>\<open>UpdateFunc\<close> alone: add and delete notifications, and every notification of the
  pod informer (lines 89-100, no \<^verbatim>\<open>AddEventHandler\<close>), reach no code of the package.
\<close>

datatype ('n, 'r, 'p) notification =
    TimerFire
  | NodeAdded 'n
  | NodeUpdated 'n 'n
  | NodeDeleted 'n
  | RsAdded 'r
  | RsUpdated 'r 'r
  | RsDeleted 'r
  | PodAdded 'p
  | PodUpdated 'p 'p
  | PodDeleted 'p

fun deliver ::
  "('n \<Rightarrow> bool) \<Rightarrow> ('n + 'r \<Rightarrow> string \<times> go_error option) \<Rightarrow> ('n, 'r, 'p) notification
     \<Rightarrow> dstate \<Rightarrow> dstate \<times> action list" where
  "deliver IsReady KeyFunc TimerFire s = timerCallback s"
| "deliver IsReady KeyFunc (NodeUpdated old new) s = nodeUpdateFunc IsReady KeyFunc old new s"
| "deliver IsReady KeyFunc (RsUpdated old new) s = rsUpdateFunc KeyFunc old new s"
| "deliver IsReady KeyFunc _ s = (s, [])"

fun deliver_all ::
  "('n \<Rightarrow> bool) \<Rightarrow> ('n + 'r \<Rightarrow> string \<times> go_error option) \<Rightarrow> ('n, 'r, 'p) notification list
     \<Rightarrow> dstate \<Rightarrow> dstate \<times> action list" where
  "deliver_all IsReady KeyFunc [] s = (s, [])"
| "deliver_all IsReady KeyFunc (n # ns) s =
     (let (s1, a1) = deliver IsReady KeyFunc n s;
          (s2, a2) = deliver_all IsReady KeyFunc ns s1
      in (s2, a1 @ a2))"

text \<open>
  A run of the node informer's callback over a sequence of update notifications
  \<open>(old, new)\<close>: the calls made by each invocation, in order of delivery.
\<close>

fun node_updates ::
  "('n \<Rightarrow> bool) \<Rightarrow> ('n + 'r \<Rightarrow> string \<times> go_error option) \<Rightarrow> ('n \<times> 'n) list \<Rightarrow> dstate
     \<Rightarrow> action list list" where
  "node_updates IsReady KeyFunc [] s = []"
| "node_updates IsReady KeyFunc ((old, new) # us) s =
     (let (s1, a1) = nodeUpdateFunc IsReady KeyFunc old new s
      in a1 # node_updates IsReady KeyFunc us s1)"

text \<open>Whether a list of calls submits an event of the given type and class.\<close>

fun submits :: "string \<Rightarrow> string \<Rightarrow> action \<Rightarrow> bool" where
  "submits et rt (Call_Add e) = (eventType e = et \<and> resourceType e = rt)"
| "submits et rt _ = False"

definition enqueues :: "string \<Rightarrow> string \<Rightarrow> action list \<Rightarrow> bool" where
  "enqueues et rt as = list_ex (submits et rt) as"

text \<open>
  Stand-ins for the collaborators, used to run the model on concrete inputs: a node or
  a replica set is a name paired with its readiness; key derivation either returns the
  name or fails with the empty key, as \<^verbatim>\<open>MetaNamespaceKeyFunc\<close> does.
\<close>

definition ready_flag :: "string \<times> bool \<Rightarrow> bool" where
  "ready_flag n = snd n"

definition name_key :: "(string \<times> bool) + (string \<times> bool) \<Rightarrow> string \<times> go_error option" where
  "name_key x = (case x of Inl n \<Rightarrow> (fst n, None) | Inr r \<Rightarrow> (fst r, None))"

definition no_key :: "(string \<times> bool) + (string \<times> bool) \<Rightarrow> string \<times> go_error option" where
  "no_key x = ([], Some (GoError ''object has no meta''))"

section \<open>The worker\<close>

text \<open>
  A call that returns yields \<open>Ret\<close> of its result; a call that never returns (the worker
  blocked in \<^verbatim>\<open>Get\<close> on an empty queue that nobody shuts down) yields \<open>Hang\<close>, with the
  state and the calls made up to that point.
\<close>

datatype 'a ret = Ret 'a | Hang

text \<open>
  \<^verbatim>\<open>processNodeItem\<close> (lines 220-228). \<open>ready\<close> is what \<^verbatim>\<open>node.GetReadyNodes\<close>
  returns on this call: an error or the list of ready nodes. The function prints and
  returns the error or nil; it touches neither the queue nor the shared variables.
\<close>

definition processNodeItem :: "go_error + string list \<Rightarrow> Event \<Rightarrow> go_error option \<times> action list" where
  "processNodeItem ready event =
     (case ready of
        Inl e \<Rightarrow> (Some e, [Call_GetReadyNodes, Call_PrintError e])
      | Inr nodes \<Rightarrow> (None, [Call_GetReadyNodes, Call_PrintNodes nodes]))"

text \<open>
  \<^verbatim>\<open>processNextItem\<close> (lines 200-218). \<open>triggered\<close> is what \<^verbatim>\<open>trigger.IsTriggered\<close>
  answers if it is called. The deferred \<^verbatim>\<open>Done\<close> runs when the function returns; the
  value returned by \<^verbatim>\<open>processNodeItem\<close> is dropped by the caller.
\<close>

definition processNextItem ::
  "bool \<Rightarrow> go_error + string list \<Rightarrow> dstate \<Rightarrow> bool ret \<times> dstate \<times> action list" where
  "processNextItem triggered ready s =
     (case Get (queue s) of
        None \<Rightarrow> (Hang, s, [Call_Get])
      | Some (ShutDownSignal, q1) \<Rightarrow> (Ret False, s\<lparr>queue := q1\<rparr>, [Call_Get])
      | Some (Got event, q1) \<Rightarrow>
          (let body =
                 (if resourceType event = ''node'' \<or> resourceType event = ''timer''
                  then Call_IsTriggered #
                         (if triggered then snd (processNodeItem ready event) else [])
                  else [])
           in (Ret True, s\<lparr>queue := Done q1 event\<rparr>, [Call_Get] @ body @ [Call_Done event])))"

text \<open>
  \<^verbatim>\<open>runWorker\<close> (lines 194-198): the loop around \<^verbatim>\<open>processNextItem\<close>. The i-th
  iteration sees the answers \<open>triggered i\<close> and \<open>ready i\<close> of the trigger predicate and
  of the ready-node provider.
\<close>

function runWorker ::
  "(nat \<Rightarrow> bool) \<Rightarrow> (nat \<Rightarrow> go_error + string list) \<Rightarrow> nat \<Rightarrow> dstate
     \<Rightarrow> unit ret \<times> dstate \<times> action list" where
  "runWorker triggered ready i s =
     (case processNextItem (triggered i) (ready i) s of
        (Hang, s1, a1) \<Rightarrow> (Hang, s1, a1)
      | (Ret False, s1, a1) \<Rightarrow> (Ret (), s1, a1)
      | (Ret True, s1, a1) \<Rightarrow>
          (case runWorker triggered ready (Suc i) s1 of
             (r, s2, a2) \<Rightarrow> (r, s2, a1 @ a2)))"
  by pat_completeness auto
termination
  by (relation "measure (\<lambda>(triggered, ready, i, s). length (items (queue s)))")
     (auto simp: processNextItem_def Get_def Done_def Let_def split: list.splits if_splits)

declare runWorker.simps [simp del]

section \<open>Run\<close>

text \<open>
  \<^verbatim>\<open>wait.Until(f, period, stopCh)\<close> of apimachinery: check the stop channel, call
  \<open>f\<close>, wait, and again, until the channel is found closed. \<open>polls\<close> is the number of
  checks that find the channel still open.
\<close>

primrec wait_Until ::
  "(dstate \<Rightarrow> unit ret \<times> dstate \<times> action list) \<Rightarrow> nat \<Rightarrow> dstate
     \<Rightarrow> unit ret \<times> dstate \<times> action list" where
  "wait_Until f 0 s = (Ret (), s, [])"
| "wait_Until f (Suc polls) s =
     (case f s of
        (Hang, s1, a1) \<Rightarrow> (Hang, s1, a1)
      | (Ret u, s1, a1) \<Rightarrow>
          (case wait_Until f polls s1 of (r, s2, a2) \<Rightarrow> (r, s2, a1 @ a2)))"

text \<open>
  The watcher a notification comes from; the timer is not a watcher and is started by
  \<^verbatim>\<open>timer.RunTimer\<close> only. While \<^verbatim>\<open>Run\<close> waits for a cache to sync, the informers
  it has already started run in their own goroutines and may call their handlers.
\<close>

fun source :: "('n, 'r, 'p) notification \<Rightarrow> watcher option" where
  "source TimerFire = None"
| "source (NodeAdded n) = Some NodeW"
| "source (NodeUpdated old new) = Some NodeW"
| "source (NodeDeleted n) = Some NodeW"
| "source (RsAdded r) = Some RsW"
| "source (RsUpdated old new) = Some RsW"
| "source (RsDeleted r) = Some RsW"
| "source (PodAdded p) = Some PodW"
| "source (PodUpdated old new) = Some PodW"
| "source (PodDeleted p) = Some PodW"

definition from_started :: "watcher list \<Rightarrow> ('n, 'r, 'p) notification \<Rightarrow> bool" where
  "from_started ws n = (case source n of None \<Rightarrow> False | Some w \<Rightarrow> List.member ws w)"

text \<open>
  The deferred calls of \<^verbatim>\<open>Run\<close>, executed last-in first-out when it returns: the
  channels of the started informers are closed, then \<^verbatim>\<open>d.queue.ShutDown()\<close> runs
  (lines 153-154, 161, 170, 179).
\<close>

definition Run_returns ::
  "watcher list \<Rightarrow> dstate \<Rightarrow> action list \<Rightarrow> unit ret \<times> dstate \<times> action list" where
  "Run_returns chans s as =
     (Ret (), s\<lparr>queue := ShutDown (queue s)\<rparr>, as @ map Call_close chans @ [Call_ShutDown])"

text \<open>
  \<^verbatim>\<open>Run\<close> (lines 152-192). \<open>synced w\<close> is what \<^verbatim>\<open>cache.WaitForCacheSync\<close> returns for
  watcher \<open>w\<close>; \<open>arrivals w\<close> are the notifications delivered while \<^verbatim>\<open>Run\<close> waits for
  \<open>w\<close> (those of informers not yet started cannot occur and are discarded). Once the
  worker runs, the model feeds the queue no further notifications. The assignment to
  the package variable \<^verbatim>\<open>serverStartTime\<close> and the deferred
  \<^verbatim>\<open>runtime.HandleCrash\<close>, which acts on a panic only, are left out.
\<close>

definition Run ::
  "('n \<Rightarrow> bool) \<Rightarrow> ('n + 'r \<Rightarrow> string \<times> go_error option) \<Rightarrow> (watcher \<Rightarrow> bool)
     \<Rightarrow> (watcher \<Rightarrow> ('n, 'r, 'p) notification list) \<Rightarrow> nat
     \<Rightarrow> (nat \<Rightarrow> bool) \<Rightarrow> (nat \<Rightarrow> go_error + string list) \<Rightarrow> dstate
     \<Rightarrow> unit ret \<times> dstate \<times> action list" where
  "Run IsReady KeyFunc synced arrivals polls triggered ready s =
     (let (s1, b1) = deliver_all IsReady KeyFunc (filter (from_started [NodeW]) (arrivals NodeW)) s;
          a1 = [Call_Println ''Starting descheduler'', Call_InformerRun NodeW] @ b1
                 @ [Call_WaitForCacheSync NodeW]
      in if \<not> synced NodeW then
           Run_returns [NodeW] s1
             (a1 @ [Call_HandleError ''Timed out waiting for nodes caches to sync''])
         else
      let (s2, b2) = deliver_all IsReady KeyFunc
                       (filter (from_started [NodeW, RsW]) (arrivals RsW)) s1;
          a2 = a1 @ [Call_InformerRun RsW] @ b2 @ [Call_WaitForCacheSync RsW]
      in if \<not> synced RsW then
           Run_returns [RsW, NodeW] s2
             (a2 @ [Call_HandleError ''Timed out waiting for raplica sets caches to sync''])
         else
      let (s3, b3) = deliver_all IsReady KeyFunc
                       (filter (from_started [NodeW, RsW, PodW]) (arrivals PodW)) s2;
          a3 = a2 @ [Call_InformerRun PodW] @ b3 @ [Call_WaitForCacheSync PodW]
      in if \<not> synced PodW then
           Run_returns [PodW, RsW, NodeW] s3
             (a3 @ [Call_HandleError ''Timed out waiting for raplica sets caches to sync''])
         else
      let a4 = a3 @ [Call_Println ''descheduler synced and ready'', Call_RunTimer, Call_WaitUntil]
      in (case wait_Until (runWorker triggered ready 0) polls s3 of
            (Hang, s4, b4) \<Rightarrow> (Hang, s4, a4 @ b4)
          | (Ret u, s4, b4) \<Rightarrow> Run_returns [PodW, RsW, NodeW] s4 (a4 @ b4)))"

text \<open>The calls a worker makes to the queue, and the event classes the producers know.\<close>

fun queue_call :: "action \<Rightarrow> bool" where
  "queue_call Call_Get = True"
| "queue_call (Call_Done e) = True"
| "queue_call _ = False"

definition known_class :: "Event \<Rightarrow> bool" where
  "known_class e =
     (resourceType e = ''timer'' \<or> resourceType e = ''node'' \<or> resourceType e = ''replicaSet'')"

text \<open>
  The retry policy in the words of the specification (section 7 and the
  \<^verbatim>\<open>NumRequeues\<close> entry of section 4.2): a failed event is re-queued through the
  rate-limited path while its counter is below the cap, and dropped and forgotten after.
  The package has no such function; it is written down to compare the code with.
\<close>

definition spec_retry :: "Event workqueue \<Rightarrow> Event \<Rightarrow> Event workqueue" where
  "spec_retry q e = (if NumRequeues q e < maxRetries then AddRateLimited q e else Forget q e)"

text \<open>Whether a call submits an event of a class the producers know.\<close>

fun adds_known :: "action \<Rightarrow> bool" where
  "adds_known (Call_Add e) = known_class e"
| "adds_known _ = False"

text \<open>
  Two reachable states used to run the worker: the callbacks' variables after the node
  n1 became ready, and after the replica set default/rs1 was updated.
\<close>

definition node_event :: Event where
  "node_event = \<lparr>key = ''n1'', eventType = ''getReady'', namespace = [], resourceType = ''node''\<rparr>"

definition rs_event :: Event where
  "rs_event = \<lparr>key = ''default/rs1'', eventType = ''rsUpdate'', namespace = [],
                resourceType = ''replicaSet''\<rparr>"

definition after_node_ready :: dstate where
  "after_node_ready = fst (nodeUpdateFunc ready_flag name_key (''n1'', False) (''n1'', True) created)"

definition after_rs_update :: dstate where
  "after_rs_update =
     fst (rsUpdateFunc name_key (''default/rs1'', True) (''default/rs1'', True) created)"

text \<open>
  Outcomes of the cache-sync waits, notifications arriving during startup and answers of
  the collaborators, used to run \<^verbatim>\<open>Run\<close> on concrete inputs.
\<close>

definition node_synced_only :: "watcher \<Rightarrow> bool" where
  "node_synced_only w = (w = NodeW)"

definition pod_never_synced :: "watcher \<Rightarrow> bool" where
  "pod_never_synced w = (w \<noteq> PodW)"

definition all_synced :: "watcher \<Rightarrow> bool" where
  "all_synced w = True"

definition node_ready_during_rs_wait ::
  "watcher \<Rightarrow> (string \<times> bool, string \<times> bool, unit) notification list" where
  "node_ready_during_rs_wait w =
     (if w = RsW then [NodeUpdated (''n1'', False) (''n1'', True), PodAdded ()] else [])"

definition never_triggered :: "nat \<Rightarrow> bool" where
  "never_triggered i = False"

definition no_ready_nodes :: "nat \<Rightarrow> go_error + string list" where
  "no_ready_nodes i = Inr []"

section \<open>Facts about the callbacks\<close>

lemma CreateDescheduler_results:
  "CreateDescheduler None None = Inr created"
  "CreateDescheduler (Some e) timerErr = Inl e"
  "CreateDescheduler None (Some e) = Inl e"
  by (simp_all add: CreateDescheduler_def created_def)

lemma nodeUpdateFunc_actions:
  "snd (nodeUpdateFunc IsReady KeyFunc old new s) =
     (if \<not> IsReady old \<and> IsReady new \<and> snd (KeyFunc (Inl old)) = None
      then [Call_Add \<lparr>key = fst (KeyFunc (Inl old)), eventType = ''getReady'',
                      namespace = namespace (newEvent s), resourceType = ''node''\<rparr>]
      else [])"
  by (cases "KeyFunc (Inl old)") (simp add: nodeUpdateFunc_def queue_Add_def Let_def)

lemma nodeUpdateFunc_namespace:
  "namespace (newEvent (fst (nodeUpdateFunc IsReady KeyFunc old new s))) = namespace (newEvent s)"
  by (cases "KeyFunc (Inl old)") (simp add: nodeUpdateFunc_def queue_Add_def Let_def)

lemma timerCallback_actions:
  "snd (timerCallback s) =
     [Call_Add ((newEvent s)\<lparr>eventType := ''onTime'', resourceType := ''timer''\<rparr>)]"
  by (simp add: timerCallback_def queue_Add_def Let_def)

lemma rsUpdateFunc_actions:
  "snd (rsUpdateFunc KeyFunc old new s) =
     (if snd (KeyFunc (Inr old)) = None
      then [Call_Add \<lparr>key = fst (KeyFunc (Inr old)), eventType = ''rsUpdate'',
                      namespace = namespace (newEvent s), resourceType = ''replicaSet''\<rparr>]
      else [])"
  by (cases "KeyFunc (Inr old)") (simp add: rsUpdateFunc_def queue_Add_def Let_def)

lemma node_updates_actions_aux:
  "namespace (newEvent s) = ns \<Longrightarrow>
   node_updates IsReady KeyFunc us s =
     map (\<lambda>(old, new).
            if \<not> IsReady old \<and> IsReady new \<and> snd (KeyFunc (Inl old)) = None
            then [Call_Add \<lparr>key = fst (KeyFunc (Inl old)), eventType = ''getReady'',
                            namespace = ns, resourceType = ''node''\<rparr>]
            else []) us"
proof (induction us arbitrary: s)
  case Nil
  show ?case by simp
next
  case (Cons u us)
  obtain old new where u: "u = (old, new)" by (cases u)
  have ns1: "namespace (newEvent (fst (nodeUpdateFunc IsReady KeyFunc old new s))) = ns"
    using Cons.prems by (simp add: nodeUpdateFunc_namespace)
  have "node_updates IsReady KeyFunc (u # us) s =
          snd (nodeUpdateFunc IsReady KeyFunc old new s)
            # node_updates IsReady KeyFunc us (fst (nodeUpdateFunc IsReady KeyFunc old new s))"
    by (simp add: u split_beta)
  then show ?case
    using Cons.IH [OF ns1] Cons.prems by (simp add: nodeUpdateFunc_actions u)
qed

lemma node_updates_actions:
  "node_updates IsReady KeyFunc us s =
     map (\<lambda>(old, new).
            if \<not> IsReady old \<and> IsReady new \<and> snd (KeyFunc (Inl old)) = None
            then [Call_Add \<lparr>key = fst (KeyFunc (Inl old)), eventType = ''getReady'',
                            namespace = namespace (newEvent s), resourceType = ''node''\<rparr>]
            else []) us"
  by (rule node_updates_actions_aux) simp

lemma deliver_adds_known:
  "a \<in> set (snd (deliver IsReady KeyFunc n s)) \<Longrightarrow> adds_known a"
  by (cases n)
     (auto simp: timerCallback_actions nodeUpdateFunc_actions rsUpdateFunc_actions known_class_def
           split: if_splits)

lemma deliver_all_adds_known:
  "a \<in> set (snd (deliver_all IsReady KeyFunc ns s)) \<Longrightarrow> adds_known a"
proof (induction ns arbitrary: s)
  case Nil
  then show ?case by simp
next
  case (Cons n ns)
  then show ?case
    by (auto simp: split_beta dest: deliver_adds_known)
qed

lemma Add_known:
  "list_all known_class (items q) \<Longrightarrow> known_class e \<Longrightarrow> list_all known_class (items (Add q e))"
  by (simp add: Add_def)

lemma deliver_known:
  "list_all known_class (items (queue s))
     \<Longrightarrow> list_all known_class (items (queue (fst (deliver IsReady KeyFunc n s))))"
proof (cases n)
  case TimerFire
  assume "list_all known_class (items (queue s))"
  then show ?thesis
    by (simp add: TimerFire timerCallback_def queue_Add_def Let_def Add_known known_class_def)
next
  case (NodeUpdated old new)
  assume "list_all known_class (items (queue s))"
  then show ?thesis
    by (cases "KeyFunc (Inl old)")
       (simp add: NodeUpdated nodeUpdateFunc_def queue_Add_def Let_def Add_known known_class_def)
next
  case (RsUpdated old new)
  assume "list_all known_class (items (queue s))"
  then show ?thesis
    by (cases "KeyFunc (Inr old)")
       (simp add: RsUpdated rsUpdateFunc_def queue_Add_def Let_def Add_known known_class_def)
qed simp_all

lemma deliver_all_known:
  "list_all known_class (items (queue s))
     \<Longrightarrow> list_all known_class (items (queue (fst (deliver_all IsReady KeyFunc ns s))))"
proof (induction ns arbitrary: s)
  case Nil
  then show ?case by simp
next
  case (Cons n ns)
  from Cons.IH [OF deliver_known [OF Cons.prems]]
  show ?case by (simp add: split_beta)
qed


lemma after_node_ready_queue:
  "queue after_node_ready = NewRateLimitingQueue\<lparr>items := [node_event]\<rparr>"
  by (simp add: after_node_ready_def nodeUpdateFunc_def queue_Add_def Let_def created_def
        zero_Event_def ready_flag_def name_key_def Add_def NewRateLimitingQueue_def node_event_def)

lemma after_rs_update_queue:
  "queue after_rs_update = NewRateLimitingQueue\<lparr>items := [rs_event]\<rparr>"
  by (simp add: after_rs_update_def rsUpdateFunc_def queue_Add_def Let_def created_def
        zero_Event_def name_key_def Add_def NewRateLimitingQueue_def rs_event_def)

section \<open>The event normaliser (claims C1, C3, C4, C8)\<close>

text \<open>
  C1, as amended. For every sequence of update notifications delivered to the node
  watcher's callback, and whatever the shared variables held before, an invocation
  submits an event with eventType getReady and resourceType node if and only if the old
  node is not ready, the new node is ready and the key of the old node could be derived.
  The submitted event carries that key; every other invocation submits nothing.
\<close>

theorem node_getReady_iff_transition_and_key:
  "map (enqueues ''getReady'' ''node'') (node_updates IsReady KeyFunc us s) =
     map (\<lambda>(old, new). \<not> IsReady old \<and> IsReady new \<and> snd (KeyFunc (Inl old)) = None) us
   \<and> node_updates IsReady KeyFunc us s =
     map (\<lambda>(old, new).
            if \<not> IsReady old \<and> IsReady new \<and> snd (KeyFunc (Inl old)) = None
            then [Call_Add \<lparr>key = fst (KeyFunc (Inl old)), eventType = ''getReady'',
                            namespace = namespace (newEvent s), resourceType = ''node''\<rparr>]
            else []) us"
proof
  show "map (enqueues ''getReady'' ''node'') (node_updates IsReady KeyFunc us s) =
     map (\<lambda>(old, new). \<not> IsReady old \<and> IsReady new \<and> snd (KeyFunc (Inl old)) = None) us"
    unfolding node_updates_actions by (simp add: enqueues_def split_beta)
next
  show "node_updates IsReady KeyFunc us s =
     map (\<lambda>(old, new).
            if \<not> IsReady old \<and> IsReady new \<and> snd (KeyFunc (Inl old)) = None
            then [Call_Add \<lparr>key = fst (KeyFunc (Inl old)), eventType = ''getReady'',
                            namespace = namespace (newEvent s), resourceType = ''node''\<rparr>]
            else []) us"
    by (rule node_updates_actions)
qed

theorem node_getReady_iff_transition_and_key_witness:
  "map (enqueues ''getReady'' ''node'')
     (node_updates ready_flag name_key
        [((''n1'', False), (''n1'', True)), ((''n1'', True), (''n1'', True)),
         ((''n1'', True), (''n1'', False)), ((''n2'', False), (''n2'', False))] created)
     = [True, False, False, False]"
  unfolding node_getReady_iff_transition_and_key [THEN conjunct1]
  by (simp add: ready_flag_def name_key_def)

text \<open>
  C1 as the specification states it fails: with a key derivation that returns an error,
  a node that goes from not ready to ready submits no event at all.
\<close>

theorem node_getReady_counterexample:
  "enqueues ''getReady'' ''node''
     (snd (nodeUpdateFunc ready_flag no_key (''n1'', False) (''n1'', True) created))
   \<noteq> (\<not> ready_flag (''n1'', False) \<and> ready_flag (''n1'', True))"
  by (simp add: nodeUpdateFunc_actions enqueues_def ready_flag_def no_key_def)

text \<open>
  C8. When key derivation fails inside the node-update or the replica-set-update
  callback, the callback makes no call at all (no \<^verbatim>\<open>Add\<close>, no error report) and leaves
  the queue as it was; the error stays in the captured variable \<^verbatim>\<open>err\<close>.
\<close>

theorem key_failure_drops_notification:
  "(snd (KeyFunc (Inl old)) \<noteq> None \<longrightarrow>
      snd (nodeUpdateFunc IsReady KeyFunc old new s) = []
      \<and> queue (fst (nodeUpdateFunc IsReady KeyFunc old new s)) = queue s)
   \<and> (snd (KeyFunc (Inr old')) \<noteq> None \<longrightarrow>
      snd (rsUpdateFunc KeyFunc old' new' s) = []
      \<and> queue (fst (rsUpdateFunc KeyFunc old' new' s)) = queue s
      \<and> err (fst (rsUpdateFunc KeyFunc old' new' s)) = snd (KeyFunc (Inr old')))"
proof (intro conjI impI)
  assume "snd (KeyFunc (Inl old)) \<noteq> None"
  then show "snd (nodeUpdateFunc IsReady KeyFunc old new s) = []"
    by (simp add: nodeUpdateFunc_actions)
next
  assume "snd (KeyFunc (Inl old)) \<noteq> None"
  then show "queue (fst (nodeUpdateFunc IsReady KeyFunc old new s)) = queue s"
    by (cases "KeyFunc (Inl old)") (auto simp: nodeUpdateFunc_def Let_def)
next
  assume "snd (KeyFunc (Inr old')) \<noteq> None"
  then show "snd (rsUpdateFunc KeyFunc old' new' s) = []"
    by (simp add: rsUpdateFunc_actions)
next
  assume "snd (KeyFunc (Inr old')) \<noteq> None"
  then show "queue (fst (rsUpdateFunc KeyFunc old' new' s)) = queue s"
    by (cases "KeyFunc (Inr old')") (auto simp: rsUpdateFunc_def Let_def)
next
  assume "snd (KeyFunc (Inr old')) \<noteq> None"
  then show "err (fst (rsUpdateFunc KeyFunc old' new' s)) = snd (KeyFunc (Inr old'))"
    by (cases "KeyFunc (Inr old')") (auto simp: rsUpdateFunc_def Let_def)
qed

theorem key_failure_drops_notification_witness:
  "snd (no_key (Inl (''n1'', False))) \<noteq> None
   \<and> snd (nodeUpdateFunc ready_flag no_key (''n1'', False) (''n1'', True) created) = []
   \<and> queue (fst (nodeUpdateFunc ready_flag no_key (''n1'', False) (''n1'', True) created))
       = queue created
   \<and> snd (no_key (Inr (''default/rs1'', True))) \<noteq> None
   \<and> snd (rsUpdateFunc no_key (''default/rs1'', True) (''default/rs1'', True) created) = []
   \<and> queue (fst (rsUpdateFunc no_key (''default/rs1'', True) (''default/rs1'', True) created))
       = queue created"
  using key_failure_drops_notification
          [of no_key "(''n1'', False)" ready_flag "(''n1'', True)" created
              "(''default/rs1'', True)" "(''default/rs1'', True)"]
  by (simp add: no_key_def)

text \<open>
  C4 does not hold of the code. The timer callback writes eventType and resourceType of
  the shared variable and leaves its key alone, while both informer callbacks write the
  key: after the node n1 became ready, the next timer event carries the key n1.
\<close>

theorem timer_event_after_node_update_has_key:
  "snd (deliver_all ready_flag name_key
          [NodeUpdated (''n1'', False) (''n1'', True),
           TimerFire :: (string \<times> bool, string \<times> bool, unit) notification] created) =
     [Call_Add \<lparr>key = ''n1'', eventType = ''getReady'', namespace = [], resourceType = ''node''\<rparr>,
      Call_Add \<lparr>key = ''n1'', eventType = ''onTime'', namespace = [], resourceType = ''timer''\<rparr>]"
  by (simp add: nodeUpdateFunc_def timerCallback_def queue_Add_def Let_def created_def
        zero_Event_def ready_flag_def name_key_def)

text \<open>
  C3 does not hold of the code. The callbacks do not build an event of their own: the
  event the timer callback submits is read from the variable all callbacks share, so it
  differs with what ran before it. Fired first, the timer submits an event with an empty
  key; fired after a replica-set update, it submits one with that replica set's key.
\<close>

theorem timer_event_depends_on_earlier_callback:
  "snd (timerCallback created) =
     [Call_Add \<lparr>key = [], eventType = ''onTime'', namespace = [], resourceType = ''timer''\<rparr>]
   \<and> snd (timerCallback
            (fst (rsUpdateFunc name_key (''default/rs1'', True) (''default/rs1'', True) created))) =
     [Call_Add \<lparr>key = ''default/rs1'', eventType = ''onTime'', namespace = [],
                resourceType = ''timer''\<rparr>]"
  by (simp add: rsUpdateFunc_def timerCallback_def queue_Add_def Let_def created_def
        zero_Event_def name_key_def)

section \<open>The worker loop (claims C2, C5, C7)\<close>

lemma processNextItem_Got:
  "Get (queue s) = Some (Got e, q1) \<Longrightarrow>
   processNextItem triggered ready s =
     (Ret True, s\<lparr>queue := Done q1 e\<rparr>,
      [Call_Get]
        @ (if resourceType e = ''node'' \<or> resourceType e = ''timer''
           then Call_IsTriggered # (if triggered then snd (processNodeItem ready e) else [])
           else [])
        @ [Call_Done e])"
  by (simp add: processNextItem_def Let_def)

lemma processNextItem_empty:
  "items (queue s) = [] \<Longrightarrow>
   processNextItem triggered ready s =
     (if shuttingDown (queue s) then (Ret False, s, [Call_Get]) else (Hang, s, [Call_Get]))"
  by (simp add: processNextItem_def Get_def)

lemma Get_Cons:
  "items q = e # es \<Longrightarrow> Get q = Some (Got e, q\<lparr>items := es, inflight := e # inflight q\<rparr>)"
  by (simp add: Get_def)

lemma processNodeItem_no_queue_call:
  "filter queue_call (snd (processNodeItem ready e)) = []"
  by (cases ready) (simp_all add: processNodeItem_def)

lemma processNodeItem_no_trigger:
  "Call_IsTriggered \<notin> set (snd (processNodeItem ready e))"
  by (cases ready) (simp_all add: processNodeItem_def)

lemma runWorker_queue_calls:
  "items (queue s) = es \<Longrightarrow>
   fst (runWorker triggered ready i s) = (if shuttingDown (queue s) then Ret () else Hang)
   \<and> items (queue (fst (snd (runWorker triggered ready i s)))) = []
   \<and> filter queue_call (snd (snd (runWorker triggered ready i s))) =
       concat (map (\<lambda>e. [Call_Get, Call_Done e]) es) @ [Call_Get]"
proof (induction es arbitrary: s i)
  case Nil
  then show ?case
    by (simp add: runWorker.simps [of triggered ready i s] processNextItem_empty)
next
  case (Cons e es)
  let ?s1 = "s\<lparr>queue := Done ((queue s)\<lparr>items := es, inflight := e # inflight (queue s)\<rparr>) e\<rparr>"
  have s1: "items (queue ?s1) = es" by (simp add: Done_def)
  have sd: "\<And>q. shuttingDown (Done q e) = shuttingDown q" by (simp add: Done_def)
  show ?case
    using Cons.IH [OF s1, of "Suc i"] Cons.prems
    by (simp add: runWorker.simps [of triggered ready i s]
          processNextItem_Got [OF Get_Cons [OF Cons.prems]]
          processNodeItem_no_queue_call split_beta sd)
qed

lemma processNextItem_never_requeues:
  "requeues (queue (fst (snd (processNextItem triggered ready s)))) = requeues (queue s)"
  by (simp add: processNextItem_def Get_def Done_def Let_def split: list.splits)


text \<open>
  C5. For every dequeued event the worker calls the trigger predicate if and only if
  the event's resourceType is node or timer. For every other resourceType (replicaSet
  included) the only calls are the \<^verbatim>\<open>Get\<close> that handed the event out and the
  \<^verbatim>\<open>Done\<close> that acknowledges it, and nothing but the queue's bookkeeping changes.
\<close>

theorem trigger_called_iff_node_or_timer:
  "Get (queue s) = Some (Got e, q1) \<Longrightarrow>
   (Call_IsTriggered \<in> set (snd (snd (processNextItem triggered ready s)))
      \<longleftrightarrow> resourceType e = ''node'' \<or> resourceType e = ''timer'')
   \<and> (resourceType e \<noteq> ''node'' \<and> resourceType e \<noteq> ''timer'' \<longrightarrow>
        processNextItem triggered ready s = (Ret True, s\<lparr>queue := Done q1 e\<rparr>, [Call_Get, Call_Done e]))"
  by (simp add: processNextItem_Got processNodeItem_no_trigger)

theorem trigger_called_iff_node_or_timer_witness:
  "Get (queue after_rs_update) =
     Some (Got rs_event, NewRateLimitingQueue\<lparr>inflight := [rs_event]\<rparr>)
   \<and> Call_IsTriggered \<notin> set (snd (snd (processNextItem True (Inr [''n1'']) after_rs_update)))
   \<and> snd (snd (processNextItem True (Inr [''n1'']) after_rs_update)) = [Call_Get, Call_Done rs_event]
   \<and> Get (queue after_node_ready) =
     Some (Got node_event, NewRateLimitingQueue\<lparr>inflight := [node_event]\<rparr>)
   \<and> Call_IsTriggered \<in> set (snd (snd (processNextItem False (Inr [''n1'']) after_node_ready)))"
proof -
  have g1: "Get (queue after_rs_update) =
              Some (Got rs_event, NewRateLimitingQueue\<lparr>inflight := [rs_event]\<rparr>)"
    by (simp add: after_rs_update_queue Get_def NewRateLimitingQueue_def)
  have g2: "Get (queue after_node_ready) =
              Some (Got node_event, NewRateLimitingQueue\<lparr>inflight := [node_event]\<rparr>)"
    by (simp add: after_node_ready_queue Get_def NewRateLimitingQueue_def)
  show ?thesis
    using trigger_called_iff_node_or_timer [OF g1, of True "Inr [''n1'']"]
          trigger_called_iff_node_or_timer [OF g2, of False "Inr [''n1'']"] g1 g2
    by (simp add: rs_event_def node_event_def)
qed

text \<open>
  C7. For every dequeued event, whatever the trigger predicate answers and whether or
  not the ready-node provider fails, \<^verbatim>\<open>processNextItem\<close> returns true and calls
  \<^verbatim>\<open>Done\<close> on the event once, as its last call. The loop of \<^verbatim>\<open>runWorker\<close> therefore
  alternates \<^verbatim>\<open>Get\<close> and \<^verbatim>\<open>Done\<close> over all pending events and ends in a \<^verbatim>\<open>Get\<close>:
  it returns only when that \<^verbatim>\<open>Get\<close> reports shutdown, and otherwise stays blocked in it.
\<close>

theorem worker_acknowledges_and_continues:
  "(Get (queue s) = Some (Got e, q1) \<longrightarrow>
      fst (processNextItem triggered ready s) = Ret True
      \<and> filter queue_call (snd (snd (processNextItem triggered ready s))) = [Call_Get, Call_Done e]
      \<and> last (snd (snd (processNextItem triggered ready s))) = Call_Done e
      \<and> queue (fst (snd (processNextItem triggered ready s))) = Done q1 e)
   \<and> fst (runWorker triggers readys i s) = (if shuttingDown (queue s) then Ret () else Hang)
   \<and> items (queue (fst (snd (runWorker triggers readys i s)))) = []
   \<and> filter queue_call (snd (snd (runWorker triggers readys i s))) =
       concat (map (\<lambda>e. [Call_Get, Call_Done e]) (items (queue s))) @ [Call_Get]"
proof (intro conjI impI)
  assume g: "Get (queue s) = Some (Got e, q1)"
  show "fst (processNextItem triggered ready s) = Ret True"
    by (simp add: processNextItem_Got [OF g])
  show "filter queue_call (snd (snd (processNextItem triggered ready s))) = [Call_Get, Call_Done e]"
    by (simp add: processNextItem_Got [OF g] processNodeItem_no_queue_call)
  show "last (snd (snd (processNextItem triggered ready s))) = Call_Done e"
    by (simp add: processNextItem_Got [OF g])
  show "queue (fst (snd (processNextItem triggered ready s))) = Done q1 e"
    by (simp add: processNextItem_Got [OF g])
next
  show "fst (runWorker triggers readys i s) = (if shuttingDown (queue s) then Ret () else Hang)"
    using runWorker_queue_calls [OF refl, of triggers readys i s] by simp
  show "items (queue (fst (snd (runWorker triggers readys i s)))) = []"
    using runWorker_queue_calls [OF refl, of triggers readys i s] by simp
  show "filter queue_call (snd (snd (runWorker triggers readys i s))) =
       concat (map (\<lambda>e. [Call_Get, Call_Done e]) (items (queue s))) @ [Call_Get]"
    using runWorker_queue_calls [OF refl, of triggers readys i s] by simp
qed

theorem worker_acknowledges_and_continues_witness:
  "Get (queue after_node_ready) =
     Some (Got node_event, NewRateLimitingQueue\<lparr>inflight := [node_event]\<rparr>)
   \<and> fst (processNextItem True (Inl (GoError ''list failed'')) after_node_ready) = Ret True
   \<and> filter queue_call
       (snd (snd (processNextItem True (Inl (GoError ''list failed'')) after_node_ready)))
       = [Call_Get, Call_Done node_event]
   \<and> fst (runWorker (\<lambda>i. True) (\<lambda>i. Inl (GoError ''list failed'')) 0 after_node_ready) = Hang
   \<and> filter queue_call
       (snd (snd (runWorker (\<lambda>i. True) (\<lambda>i. Inl (GoError ''list failed'')) 0 after_node_ready)))
       = [Call_Get, Call_Done node_event, Call_Get]"
proof -
  have g: "Get (queue after_node_ready) =
             Some (Got node_event, NewRateLimitingQueue\<lparr>inflight := [node_event]\<rparr>)"
    by (simp add: after_node_ready_queue Get_def NewRateLimitingQueue_def)
  show ?thesis
    using worker_acknowledges_and_continues
            [of after_node_ready node_event "NewRateLimitingQueue\<lparr>inflight := [node_event]\<rparr>"
                True "Inl (GoError ''list failed'')" "\<lambda>i. True"
                "\<lambda>i. Inl (GoError ''list failed'')" 0] g
    by (simp add: after_node_ready_queue NewRateLimitingQueue_def)
qed

text \<open>
  C2 does not hold of the code. The node event of n1 is dequeued, the trigger predicate
  answers true and the ready-node provider fails: the worker prints the error and
  acknowledges the event. The event is not pending afterwards and its retry counter is
  still 0, where the retry policy of the specification would leave it pending with
  counter 1.
\<close>

theorem failed_event_is_not_requeued:
  "fst (processNextItem True (Inl (GoError ''list failed'')) after_node_ready) = Ret True
   \<and> snd (snd (processNextItem True (Inl (GoError ''list failed'')) after_node_ready)) =
       [Call_Get, Call_IsTriggered, Call_GetReadyNodes, Call_PrintError (GoError ''list failed''),
        Call_Done node_event]
   \<and> items (queue (fst (snd (processNextItem True (Inl (GoError ''list failed'')) after_node_ready))))
       = []
   \<and> NumRequeues
       (queue (fst (snd (processNextItem True (Inl (GoError ''list failed'')) after_node_ready))))
       node_event = 0
   \<and> items (spec_retry
       (queue (fst (snd (processNextItem True (Inl (GoError ''list failed'')) after_node_ready))))
       node_event) = [node_event]
   \<and> NumRequeues (spec_retry
       (queue (fst (snd (processNextItem True (Inl (GoError ''list failed'')) after_node_ready))))
       node_event) node_event = 1"
  by (simp add: processNextItem_def after_node_ready_queue Get_def Done_def Let_def
        processNodeItem_def NewRateLimitingQueue_def node_event_def NumRequeues_def
        spec_retry_def AddRateLimited_def Add_def maxRetries_def)


section \<open>Startup and shutdown (claims C6, C9, C10)\<close>

lemma deliver_all_quiet:
  assumes "deliver_all IsReady KeyFunc ns s = (s1, b1)"
  shows "Call_RunTimer \<notin> set b1" and "Call_WaitUntil \<notin> set b1" and "Call_Get \<notin> set b1"
    and "Call_ShutDown \<notin> set b1"
proof -
  have k: "\<And>a. a \<in> set b1 \<Longrightarrow> adds_known a"
    using deliver_all_adds_known [of _ IsReady KeyFunc ns s] assms by simp
  show "Call_RunTimer \<notin> set b1" using k [of Call_RunTimer] by auto
  show "Call_WaitUntil \<notin> set b1" using k [of Call_WaitUntil] by auto
  show "Call_Get \<notin> set b1" using k [of Call_Get] by auto
  show "Call_ShutDown \<notin> set b1" using k [of Call_ShutDown] by auto
qed

lemma deliver_all_known_fact:
  assumes "deliver_all IsReady KeyFunc ns s = (s1, b1)"
    and "list_all known_class (items (queue s))"
  shows "list_all known_class (items (queue s1))"
  using deliver_all_known [OF assms(2), of IsReady KeyFunc ns] assms(1) by simp

lemma wait_Until_runWorker_known:
  "list_all known_class (items (queue s)) \<Longrightarrow>
   list_all known_class
     (items (queue (fst (snd (wait_Until (runWorker triggered ready i) polls s)))))"
proof (induction polls arbitrary: s)
  case 0
  then show ?case by simp
next
  case (Suc polls)
  obtain r s1 a1 where w: "runWorker triggered ready i s = (r, s1, a1)"
    by (cases "runWorker triggered ready i s")
  have e: "items (queue s1) = []"
    using runWorker_queue_calls [OF refl, of triggered ready i s] by (simp add: w)
  then have k: "list_all known_class (items (queue s1))" by simp
  show ?case
    using Suc.IH [OF k] e by (cases r) (simp_all add: w split_beta)
qed

lemma Run_cases:
  fixes arrivals :: "watcher \<Rightarrow> ('n, 'r, 'p) notification list"
  obtains
    (node_timeout) s1 b1 where "\<not> synced NodeW"
      "deliver_all IsReady KeyFunc (filter (from_started [NodeW]) (arrivals NodeW)) s = (s1, b1)"
      "Run IsReady KeyFunc synced arrivals polls triggered ready s =
         Run_returns [NodeW] s1
           ([Call_Println ''Starting descheduler'', Call_InformerRun NodeW] @ b1
              @ [Call_WaitForCacheSync NodeW,
                 Call_HandleError ''Timed out waiting for nodes caches to sync''])"
  | (rs_timeout) s1 b1 s2 b2 where "synced NodeW" "\<not> synced RsW"
      "deliver_all IsReady KeyFunc (filter (from_started [NodeW]) (arrivals NodeW)) s = (s1, b1)"
      "deliver_all IsReady KeyFunc (filter (from_started [NodeW, RsW]) (arrivals RsW)) s1 = (s2, b2)"
      "Run IsReady KeyFunc synced arrivals polls triggered ready s =
         Run_returns [RsW, NodeW] s2
           ([Call_Println ''Starting descheduler'', Call_InformerRun NodeW] @ b1
              @ [Call_WaitForCacheSync NodeW, Call_InformerRun RsW] @ b2
              @ [Call_WaitForCacheSync RsW,
                 Call_HandleError ''Timed out waiting for raplica sets caches to sync''])"
  | (pod_timeout) s1 b1 s2 b2 s3 b3 where "synced NodeW" "synced RsW" "\<not> synced PodW"
      "deliver_all IsReady KeyFunc (filter (from_started [NodeW]) (arrivals NodeW)) s = (s1, b1)"
      "deliver_all IsReady KeyFunc (filter (from_started [NodeW, RsW]) (arrivals RsW)) s1 = (s2, b2)"
      "deliver_all IsReady KeyFunc (filter (from_started [NodeW, RsW, PodW]) (arrivals PodW)) s2
         = (s3, b3)"
      "Run IsReady KeyFunc synced arrivals polls triggered ready s =
         Run_returns [PodW, RsW, NodeW] s3
           ([Call_Println ''Starting descheduler'', Call_InformerRun NodeW] @ b1
              @ [Call_WaitForCacheSync NodeW, Call_InformerRun RsW] @ b2
              @ [Call_WaitForCacheSync RsW, Call_InformerRun PodW] @ b3
              @ [Call_WaitForCacheSync PodW,
                 Call_HandleError ''Timed out waiting for raplica sets caches to sync''])"
  | (running) s1 b1 s2 b2 s3 b3 r s4 b4 where "synced NodeW" "synced RsW" "synced PodW"
      "deliver_all IsReady KeyFunc (filter (from_started [NodeW]) (arrivals NodeW)) s = (s1, b1)"
      "deliver_all IsReady KeyFunc (filter (from_started [NodeW, RsW]) (arrivals RsW)) s1 = (s2, b2)"
      "deliver_all IsReady KeyFunc (filter (from_started [NodeW, RsW, PodW]) (arrivals PodW)) s2
         = (s3, b3)"
      "wait_Until (runWorker triggered ready 0) polls s3 = (r, s4, b4)"
      "Run IsReady KeyFunc synced arrivals polls triggered ready s =
         (case r of
            Hang \<Rightarrow> (Hang, s4,
              [Call_Println ''Starting descheduler'', Call_InformerRun NodeW] @ b1
              @ [Call_WaitForCacheSync NodeW, Call_InformerRun RsW] @ b2
              @ [Call_WaitForCacheSync RsW, Call_InformerRun PodW] @ b3
              @ [Call_WaitForCacheSync PodW, Call_Println ''descheduler synced and ready'',
                 Call_RunTimer, Call_WaitUntil] @ b4)
          | Ret u \<Rightarrow> Run_returns [PodW, RsW, NodeW] s4
             ([Call_Println ''Starting descheduler'', Call_InformerRun NodeW] @ b1
              @ [Call_WaitForCacheSync NodeW, Call_InformerRun RsW] @ b2
              @ [Call_WaitForCacheSync RsW, Call_InformerRun PodW] @ b3
              @ [Call_WaitForCacheSync PodW, Call_Println ''descheduler synced and ready'',
                 Call_RunTimer, Call_WaitUntil] @ b4))"
proof -
  obtain s1 b1 where d1:
    "deliver_all IsReady KeyFunc (filter (from_started [NodeW]) (arrivals NodeW)) s = (s1, b1)"
    by (cases "deliver_all IsReady KeyFunc (filter (from_started [NodeW]) (arrivals NodeW)) s")
  obtain s2 b2 where d2:
    "deliver_all IsReady KeyFunc (filter (from_started [NodeW, RsW]) (arrivals RsW)) s1 = (s2, b2)"
    by (cases "deliver_all IsReady KeyFunc (filter (from_started [NodeW, RsW]) (arrivals RsW)) s1")
  obtain s3 b3 where d3:
    "deliver_all IsReady KeyFunc (filter (from_started [NodeW, RsW, PodW]) (arrivals PodW)) s2
       = (s3, b3)"
    by (cases "deliver_all IsReady KeyFunc
                 (filter (from_started [NodeW, RsW, PodW]) (arrivals PodW)) s2")
  obtain r s4 b4 where w: "wait_Until (runWorker triggered ready 0) polls s3 = (r, s4, b4)"
    by (cases "wait_Until (runWorker triggered ready 0) polls s3")
  show thesis
  proof (cases "synced NodeW")
    case False
    then show thesis
      using d1 by (intro node_timeout [of s1 b1]) (simp_all add: Run_def)
  next
    case n: True
    show thesis
    proof (cases "synced RsW")
      case False
      then show thesis
        using n d1 d2 by (intro rs_timeout [of s1 b1 s2 b2]) (simp_all add: Run_def)
    next
      case rs: True
      show thesis
      proof (cases "synced PodW")
        case False
        then show thesis
          using n rs d1 d2 d3
          by (intro pod_timeout [of s1 b1 s2 b2 s3 b3]) (simp_all add: Run_def)
      next
        case True
        then show thesis
          using n rs d1 d2 d3 w
          by (intro running [of s1 b1 s2 b2 s3 b3 r s4 b4])
             (simp_all add: Run_def split: ret.splits)
      qed
    qed
  qed
qed


lemma ShutDown_fields:
  "items (ShutDown q) = items q" "shuttingDown (ShutDown q)"
  by (simp_all add: ShutDown_def)

lemma Run_returns_facts:
  "fst (Run_returns chans s as) = Ret ()"
  "queue (fst (snd (Run_returns chans s as))) = ShutDown (queue s)"
  "last (snd (snd (Run_returns chans s as))) = Call_ShutDown"
  by (simp_all add: Run_returns_def)

lemma Run_returned_shape:
  fixes arrivals :: "watcher \<Rightarrow> ('n, 'r, 'p) notification list"
  assumes "fst (Run IsReady KeyFunc synced arrivals polls triggered ready s) = Ret ()"
  shows "\<exists>chans s1 as.
           Run IsReady KeyFunc synced arrivals polls triggered ready s = Run_returns chans s1 as"
proof (cases rule: Run_cases [of synced IsReady KeyFunc arrivals s polls triggered ready])
  case (node_timeout s1 b1)
  then show ?thesis by blast
next
  case (rs_timeout s1 b1 s2 b2)
  then show ?thesis by blast
next
  case (pod_timeout s1 b1 s2 b2 s3 b3)
  then show ?thesis by blast
next
  case (running s1 b1 s2 b2 s3 b3 r s4 b4)
  show ?thesis
  proof (cases r)
    case (Ret u)
    then show ?thesis using running(8) by auto
  next
    case Hang
    then show ?thesis using running(8) assms by simp
  qed
qed

text \<open>
  C6. \<^verbatim>\<open>Run\<close> starts the timer and hands the worker to \<^verbatim>\<open>wait.Until\<close> if and only
  if the waits for the node, replica-set and pod caches all reported synced, and then
  all three waits have returned before \<^verbatim>\<open>timer.RunTimer\<close> is called. If any one wait
  fails, \<^verbatim>\<open>Run\<close> returns, and neither the timer nor the worker (no \<^verbatim>\<open>Get\<close>) was
  started.
\<close>

theorem Running_only_after_all_synced:
  fixes arrivals :: "watcher \<Rightarrow> ('n, 'r, 'p) notification list"
  shows
  "(Call_RunTimer \<in> set (snd (snd (Run IsReady KeyFunc synced arrivals polls triggered ready s)))
      \<longleftrightarrow> synced NodeW \<and> synced RsW \<and> synced PodW)
   \<and> (Call_WaitUntil \<in> set (snd (snd (Run IsReady KeyFunc synced arrivals polls triggered ready s)))
      \<longleftrightarrow> synced NodeW \<and> synced RsW \<and> synced PodW)
   \<and> (Call_Get \<in> set (snd (snd (Run IsReady KeyFunc synced arrivals polls triggered ready s)))
      \<longrightarrow> synced NodeW \<and> synced RsW \<and> synced PodW)
   \<and> (\<not> (synced NodeW \<and> synced RsW \<and> synced PodW)
      \<longrightarrow> fst (Run IsReady KeyFunc synced arrivals polls triggered ready s) = Ret ())
   \<and> (synced NodeW \<and> synced RsW \<and> synced PodW
      \<longrightarrow> Call_WaitForCacheSync NodeW \<in> set (takeWhile (\<lambda>a. a \<noteq> Call_RunTimer)
             (snd (snd (Run IsReady KeyFunc synced arrivals polls triggered ready s))))
        \<and> Call_WaitForCacheSync RsW \<in> set (takeWhile (\<lambda>a. a \<noteq> Call_RunTimer)
             (snd (snd (Run IsReady KeyFunc synced arrivals polls triggered ready s))))
        \<and> Call_WaitForCacheSync PodW \<in> set (takeWhile (\<lambda>a. a \<noteq> Call_RunTimer)
             (snd (snd (Run IsReady KeyFunc synced arrivals polls triggered ready s)))))"
proof (cases rule: Run_cases [of synced IsReady KeyFunc arrivals s polls triggered ready])
  case (node_timeout s1 b1)
  show ?thesis
    using node_timeout(1) deliver_all_quiet [OF node_timeout(2)]
    by (simp add: node_timeout(3) Run_returns_def)
next
  case (rs_timeout s1 b1 s2 b2)
  show ?thesis
    using rs_timeout(1,2) deliver_all_quiet [OF rs_timeout(3)] deliver_all_quiet [OF rs_timeout(4)]
    by (simp add: rs_timeout(5) Run_returns_def)
next
  case (pod_timeout s1 b1 s2 b2 s3 b3)
  show ?thesis
    using pod_timeout(1,2,3) deliver_all_quiet [OF pod_timeout(4)]
      deliver_all_quiet [OF pod_timeout(5)] deliver_all_quiet [OF pod_timeout(6)]
    by (simp add: pod_timeout(7) Run_returns_def)
next
  case (running s1 b1 s2 b2 s3 b3 r s4 b4)
  let ?pre = "[Call_Println ''Starting descheduler'', Call_InformerRun NodeW] @ b1
              @ [Call_WaitForCacheSync NodeW, Call_InformerRun RsW] @ b2
              @ [Call_WaitForCacheSync RsW, Call_InformerRun PodW] @ b3
              @ [Call_WaitForCacheSync PodW, Call_Println ''descheduler synced and ready'']"
  have pre: "\<And>x. x \<in> set ?pre \<Longrightarrow> x \<noteq> Call_RunTimer"
    using deliver_all_quiet(1) [OF running(4)] deliver_all_quiet(1) [OF running(5)]
      deliver_all_quiet(1) [OF running(6)] by auto
  obtain rest where acts:
    "snd (snd (Run IsReady KeyFunc synced arrivals polls triggered ready s))
       = ?pre @ Call_RunTimer # Call_WaitUntil # rest"
    by (cases r) (simp_all add: running(8) Run_returns_def)
  have tw: "takeWhile (\<lambda>a. a \<noteq> Call_RunTimer) (?pre @ Call_RunTimer # Call_WaitUntil # rest) = ?pre"
    using pre by (subst takeWhile_append2) (blast, simp)
  show ?thesis
    unfolding acts tw using running(1,2,3) by simp
qed


theorem Running_only_after_all_synced_witness:
  "Call_RunTimer \<notin> set (snd (snd (Run ready_flag name_key node_synced_only
       node_ready_during_rs_wait 1 never_triggered no_ready_nodes created)))
   \<and> fst (Run ready_flag name_key node_synced_only
       node_ready_during_rs_wait 1 never_triggered no_ready_nodes created) = Ret ()
   \<and> Call_RunTimer \<in> set (snd (snd (Run ready_flag name_key all_synced
       node_ready_during_rs_wait 1 never_triggered no_ready_nodes created)))
   \<and> Call_WaitForCacheSync PodW \<in> set (takeWhile (\<lambda>a. a \<noteq> Call_RunTimer)
       (snd (snd (Run ready_flag name_key all_synced
          node_ready_during_rs_wait 1 never_triggered no_ready_nodes created))))"
  using Running_only_after_all_synced
          [of ready_flag name_key node_synced_only node_ready_during_rs_wait 1
              never_triggered no_ready_nodes created]
        Running_only_after_all_synced
          [of ready_flag name_key all_synced node_ready_during_rs_wait 1
              never_triggered no_ready_nodes created]
  by (simp add: node_synced_only_def all_synced_def)

text \<open>
  C9. No notification of the pod informer reaches a handler: delivering one changes
  nothing and calls nothing. Still \<^verbatim>\<open>Run\<close> starts the pod informer and waits for its
  cache once the node and replica-set caches are synced, and a failed wait makes
  \<^verbatim>\<open>Run\<close> return without starting the timer or the worker. Every pending event,
  after any sequence of notifications and after any run of \<^verbatim>\<open>Run\<close> from the state
  \<^verbatim>\<open>CreateDescheduler\<close> leaves, has resourceType timer, node or replicaSet.
\<close>

theorem pod_informer_synced_but_silent:
  fixes arrivals :: "watcher \<Rightarrow> ('n, 'r, 'p) notification list"
    and ns :: "('n, 'r, 'p) notification list"
  shows
  "deliver IsReady KeyFunc (PodAdded p :: ('n, 'r, 'p) notification) s = (s, [])
   \<and> deliver IsReady KeyFunc (PodUpdated p p' :: ('n, 'r, 'p) notification) s = (s, [])
   \<and> deliver IsReady KeyFunc (PodDeleted p :: ('n, 'r, 'p) notification) s = (s, [])
   \<and> (synced NodeW \<and> synced RsW \<longrightarrow>
        Call_InformerRun PodW
          \<in> set (snd (snd (Run IsReady KeyFunc synced arrivals polls triggered ready s)))
        \<and> Call_WaitForCacheSync PodW
          \<in> set (snd (snd (Run IsReady KeyFunc synced arrivals polls triggered ready s))))
   \<and> (synced NodeW \<and> synced RsW \<and> \<not> synced PodW \<longrightarrow>
        fst (Run IsReady KeyFunc synced arrivals polls triggered ready s) = Ret ()
        \<and> Call_RunTimer
          \<notin> set (snd (snd (Run IsReady KeyFunc synced arrivals polls triggered ready s)))
        \<and> Call_Get
          \<notin> set (snd (snd (Run IsReady KeyFunc synced arrivals polls triggered ready s))))
   \<and> list_all known_class (items (queue (fst (deliver_all IsReady KeyFunc ns created))))
   \<and> list_all known_class
        (items (queue (fst (snd (Run IsReady KeyFunc synced arrivals polls triggered ready created)))))"
proof (intro conjI)
  show "deliver IsReady KeyFunc (PodAdded p :: ('n, 'r, 'p) notification) s = (s, [])"
    by simp
  show "deliver IsReady KeyFunc (PodUpdated p p' :: ('n, 'r, 'p) notification) s = (s, [])"
    by simp
  show "deliver IsReady KeyFunc (PodDeleted p :: ('n, 'r, 'p) notification) s = (s, [])"
    by simp
  show "synced NodeW \<and> synced RsW \<longrightarrow>
        Call_InformerRun PodW
          \<in> set (snd (snd (Run IsReady KeyFunc synced arrivals polls triggered ready s)))
        \<and> Call_WaitForCacheSync PodW
          \<in> set (snd (snd (Run IsReady KeyFunc synced arrivals polls triggered ready s)))"
  proof (cases rule: Run_cases [of synced IsReady KeyFunc arrivals s polls triggered ready])
    case (node_timeout s1 b1)
    then show ?thesis by simp
  next
    case (rs_timeout s1 b1 s2 b2)
    then show ?thesis by simp
  next
    case (pod_timeout s1 b1 s2 b2 s3 b3)
    show ?thesis by (simp add: pod_timeout(7) Run_returns_def)
  next
    case (running s1 b1 s2 b2 s3 b3 r s4 b4)
    show ?thesis by (cases r) (simp_all add: running(8) Run_returns_def)
  qed
  show "synced NodeW \<and> synced RsW \<and> \<not> synced PodW \<longrightarrow>
        fst (Run IsReady KeyFunc synced arrivals polls triggered ready s) = Ret ()
        \<and> Call_RunTimer
          \<notin> set (snd (snd (Run IsReady KeyFunc synced arrivals polls triggered ready s)))
        \<and> Call_Get
          \<notin> set (snd (snd (Run IsReady KeyFunc synced arrivals polls triggered ready s)))"
  proof (cases rule: Run_cases [of synced IsReady KeyFunc arrivals s polls triggered ready])
    case (node_timeout s1 b1)
    then show ?thesis by simp
  next
    case (rs_timeout s1 b1 s2 b2)
    then show ?thesis by simp
  next
    case (pod_timeout s1 b1 s2 b2 s3 b3)
    show ?thesis
      using deliver_all_quiet [OF pod_timeout(4)] deliver_all_quiet [OF pod_timeout(5)]
        deliver_all_quiet [OF pod_timeout(6)]
      by (simp add: pod_timeout(7) Run_returns_def)
  next
    case (running s1 b1 s2 b2 s3 b3 r s4 b4)
    then show ?thesis by simp
  qed
  have k0: "list_all known_class (items (queue created))"
    by (simp add: created_def NewRateLimitingQueue_def)
  show "list_all known_class (items (queue (fst (deliver_all IsReady KeyFunc ns created))))"
    by (rule deliver_all_known [OF k0])
  show "list_all known_class
        (items (queue (fst (snd (Run IsReady KeyFunc synced arrivals polls triggered ready created)))))"
  proof (cases rule: Run_cases [of synced IsReady KeyFunc arrivals created polls triggered ready])
    case (node_timeout s1 b1)
    show ?thesis
      using deliver_all_known_fact [OF node_timeout(2) k0]
      by (simp add: node_timeout(3) Run_returns_def ShutDown_fields)
  next
    case (rs_timeout s1 b1 s2 b2)
    show ?thesis
      using deliver_all_known_fact [OF rs_timeout(4) deliver_all_known_fact [OF rs_timeout(3) k0]]
      by (simp add: rs_timeout(5) Run_returns_def ShutDown_fields)
  next
    case (pod_timeout s1 b1 s2 b2 s3 b3)
    show ?thesis
      using deliver_all_known_fact [OF pod_timeout(6)
              deliver_all_known_fact [OF pod_timeout(5) deliver_all_known_fact [OF pod_timeout(4) k0]]]
      by (simp add: pod_timeout(7) Run_returns_def ShutDown_fields)
  next
    case (running s1 b1 s2 b2 s3 b3 r s4 b4)
    have k3: "list_all known_class (items (queue s3))"
      by (rule deliver_all_known_fact [OF running(6)
              deliver_all_known_fact [OF running(5) deliver_all_known_fact [OF running(4) k0]]])
    have k4: "list_all known_class (items (queue s4))"
      using wait_Until_runWorker_known [OF k3, of triggered ready 0 polls] running(7) by simp
    show ?thesis
      using k4 by (cases r) (simp_all add: running(8) Run_returns_def ShutDown_fields)
  qed
qed

theorem pod_informer_synced_but_silent_witness:
  "pod_never_synced NodeW \<and> pod_never_synced RsW \<and> \<not> pod_never_synced PodW
   \<and> fst (Run ready_flag name_key pod_never_synced node_ready_during_rs_wait 1
            never_triggered no_ready_nodes created) = Ret ()
   \<and> Call_WaitForCacheSync PodW
        \<in> set (snd (snd (Run ready_flag name_key pod_never_synced node_ready_during_rs_wait 1
            never_triggered no_ready_nodes created)))
   \<and> Call_RunTimer
        \<notin> set (snd (snd (Run ready_flag name_key pod_never_synced node_ready_during_rs_wait 1
            never_triggered no_ready_nodes created)))
   \<and> list_all known_class
        (items (queue (fst (snd (Run ready_flag name_key pod_never_synced
            node_ready_during_rs_wait 1 never_triggered no_ready_nodes created)))))"
  using pod_informer_synced_but_silent
          [of ready_flag name_key "()" created "()" pod_never_synced node_ready_during_rs_wait 1
              never_triggered no_ready_nodes "[]"]
  by (simp add: pod_never_synced_def)


text \<open>
  C10, as amended. Whenever \<^verbatim>\<open>Run\<close> returns, a startup abort included, the queue's
  \<^verbatim>\<open>ShutDown\<close> was its last call and the queue is shut down: it takes no new event, and
  a later \<^verbatim>\<open>Get\<close> never blocks. That \<^verbatim>\<open>Get\<close> returns shutdown exactly when no
  event is pending; events still pending are handed out first.
\<close>

theorem Run_return_shuts_queue_down:
  fixes arrivals :: "watcher \<Rightarrow> ('n, 'r, 'p) notification list"
  shows
  "fst (Run IsReady KeyFunc synced arrivals polls triggered ready s) = Ret () \<longrightarrow>
     last (snd (snd (Run IsReady KeyFunc synced arrivals polls triggered ready s))) = Call_ShutDown
     \<and> shuttingDown (queue (fst (snd (Run IsReady KeyFunc synced arrivals polls triggered ready s))))
     \<and> Get (queue (fst (snd (Run IsReady KeyFunc synced arrivals polls triggered ready s)))) \<noteq> None
     \<and> (Get (queue (fst (snd (Run IsReady KeyFunc synced arrivals polls triggered ready s))))
          = Some (ShutDownSignal,
                  queue (fst (snd (Run IsReady KeyFunc synced arrivals polls triggered ready s))))
        \<longleftrightarrow> items (queue (fst (snd (Run IsReady KeyFunc synced arrivals polls triggered ready s))))
              = [])
     \<and> Add (queue (fst (snd (Run IsReady KeyFunc synced arrivals polls triggered ready s)))) e
          = queue (fst (snd (Run IsReady KeyFunc synced arrivals polls triggered ready s)))"
proof
  assume "fst (Run IsReady KeyFunc synced arrivals polls triggered ready s) = Ret ()"
  from Run_returned_shape [OF this] obtain chans s1 as where
    R: "Run IsReady KeyFunc synced arrivals polls triggered ready s = Run_returns chans s1 as"
    by blast
  show "last (snd (snd (Run IsReady KeyFunc synced arrivals polls triggered ready s))) = Call_ShutDown
     \<and> shuttingDown (queue (fst (snd (Run IsReady KeyFunc synced arrivals polls triggered ready s))))
     \<and> Get (queue (fst (snd (Run IsReady KeyFunc synced arrivals polls triggered ready s)))) \<noteq> None
     \<and> (Get (queue (fst (snd (Run IsReady KeyFunc synced arrivals polls triggered ready s))))
          = Some (ShutDownSignal,
                  queue (fst (snd (Run IsReady KeyFunc synced arrivals polls triggered ready s))))
        \<longleftrightarrow> items (queue (fst (snd (Run IsReady KeyFunc synced arrivals polls triggered ready s))))
              = [])
     \<and> Add (queue (fst (snd (Run IsReady KeyFunc synced arrivals polls triggered ready s)))) e
          = queue (fst (snd (Run IsReady KeyFunc synced arrivals polls triggered ready s)))"
    unfolding R Run_returns_facts
    by (simp add: ShutDown_def Get_def Add_def split: list.splits)
qed

theorem Run_return_shuts_queue_down_witness:
  "fst (Run ready_flag name_key node_synced_only node_ready_during_rs_wait 1
          never_triggered no_ready_nodes created) = Ret ()
   \<and> shuttingDown (queue (fst (snd (Run ready_flag name_key node_synced_only
          node_ready_during_rs_wait 1 never_triggered no_ready_nodes created))))
   \<and> last (snd (snd (Run ready_flag name_key node_synced_only
          node_ready_during_rs_wait 1 never_triggered no_ready_nodes created))) = Call_ShutDown"
proof -
  have r: "fst (Run ready_flag name_key node_synced_only node_ready_during_rs_wait 1
                  never_triggered no_ready_nodes created) = Ret ()"
    by (simp add: Run_def Run_returns_def node_synced_only_def split_beta)
  show ?thesis
    using Run_return_shuts_queue_down
            [of ready_flag name_key node_synced_only node_ready_during_rs_wait 1
                never_triggered no_ready_nodes created] r
    by simp
qed

text \<open>
  C10 as stated fails: the node cache syncs, node n1 becomes ready while \<^verbatim>\<open>Run\<close>
  waits for the replica-set cache, and that wait fails. \<^verbatim>\<open>Run\<close> returns after
  \<^verbatim>\<open>ShutDown\<close>, and the next \<^verbatim>\<open>Get\<close> returns the pending node event, not shutdown.
\<close>

theorem Get_after_aborted_Run_counterexample:
  "fst (Run ready_flag name_key node_synced_only node_ready_during_rs_wait 1
          never_triggered no_ready_nodes created) = Ret ()
   \<and> map_option fst
       (Get (queue (fst (snd (Run ready_flag name_key node_synced_only
          node_ready_during_rs_wait 1 never_triggered no_ready_nodes created)))))
       = Some (Got node_event)"
  by (simp add: Run_def Run_returns_def node_synced_only_def node_ready_during_rs_wait_def
        from_started_def nodeUpdateFunc_def queue_Add_def Let_def created_def zero_Event_def
        ready_flag_def name_key_def Add_def NewRateLimitingQueue_def ShutDown_def Get_def
        node_event_def)


end
